theory Spec2Isabelle
  imports Main
begin

section \<open>JavaScript values used by \<^verbatim>\<open>vcpkg-utils.ts\<close>\<close>

text \<open>
  A JavaScript string is a sequence of code units. The model uses \<^typ>\<open>string\<close>: one
  \<^typ>\<open>char\<close> is one code unit in the range 0..255, so \<^term>\<open>CHR 0xE1\<close> is the letter
  a with an acute accent. A value of type \<^verbatim>\<open>string | undefined\<close> or
  \<^verbatim>\<open>string | null\<close> is a \<^typ>\<open>string option\<close>.
\<close>

text \<open>The truth value of \<^verbatim>\<open>if (s)\<close> for an optional string: defined and not empty.\<close>

definition truthy :: "string option \<Rightarrow> bool" where
  "truthy s = (case s of None \<Rightarrow> False | Some v \<Rightarrow> v \<noteq> [])"

text \<open>
  \<^verbatim>\<open>String.prototype.trim\<close>: the white space and line terminator code units below 256 are
  TAB, LF, VT, FF, CR, SP and NBSP.
\<close>

definition is_js_space :: "char \<Rightarrow> bool" where
  "is_js_space c = (c \<in> set [CHR 0x09, CHR 0x0A, CHR 0x0B, CHR 0x0C, CHR 0x0D, CHR 0x20, CHR 0xA0])"

definition trim :: "string \<Rightarrow> string" where
  "trim s = rev (dropWhile is_js_space (rev (dropWhile is_js_space s)))"

text \<open>\<^verbatim>\<open>Array.prototype.join\<close>, also the conversion of an array inside a template literal
  (separator \<^verbatim>\<open>,\<close>).\<close>

fun join_with :: "string \<Rightarrow> string list \<Rightarrow> string" where
  "join_with sep [] = []"
| "join_with sep [x] = x"
| "join_with sep (x # y # ys) = x @ sep @ join_with sep (y # ys)"

text \<open>\<^verbatim>\<open>s.replace(pat, rep)\<close> with a string pattern: the first occurrence only; the empty
  pattern matches at the start.\<close>

fun starts_with :: "string \<Rightarrow> string \<Rightarrow> bool" where
  "starts_with [] s = True"
| "starts_with (p # ps) [] = False"
| "starts_with (p # ps) (c # cs) = (p = c \<and> starts_with ps cs)"

fun replace_first :: "string \<Rightarrow> string \<Rightarrow> string \<Rightarrow> string" where
  "replace_first pat rep [] = (if pat = [] then rep else [])"
| "replace_first pat rep (c # cs) =
     (if starts_with pat (c # cs) then rep @ drop (length pat) (c # cs)
      else c # replace_first pat rep cs)"

text \<open>The single and the double quote, which a string literal of the theory cannot end with.\<close>

definition sq :: string where
  "sq = [CHR 0x27]"

definition dq :: string where
  "dq = [CHR 0x22]"

text \<open>
  \<^verbatim>\<open>JSON.stringify\<close> on a string, on an array of strings and on a key set: the quote, the
  backslash and the control characters are escaped.
\<close>

definition hex_digit :: "nat \<Rightarrow> char" where
  "hex_digit n = (''0123456789abcdef'' ! (n mod 16))"

definition json_escape :: "char \<Rightarrow> string" where
  "json_escape c =
     (if c = CHR 0x22 then [CHR 0x5C, CHR 0x22]
      else if c = CHR 0x5C then [CHR 0x5C, CHR 0x5C]
      else if c = CHR 0x08 then [CHR 0x5C, CHR ''b'']
      else if c = CHR 0x0C then [CHR 0x5C, CHR ''f'']
      else if c = CHR 0x0A then [CHR 0x5C, CHR ''n'']
      else if c = CHR 0x0D then [CHR 0x5C, CHR ''r'']
      else if c = CHR 0x09 then [CHR 0x5C, CHR ''t'']
      else if (of_char c :: nat) < 32
        then [CHR 0x5C, CHR ''u'', CHR ''0'', CHR ''0'',
              hex_digit (of_char c div 16), hex_digit (of_char c)]
      else [c])"

definition json_string :: "string \<Rightarrow> string" where
  "json_string s = dq @ concat (map json_escape s) @ dq"

definition json_array :: "string list \<Rightarrow> string" where
  "json_array xs = ''['' @ join_with '','' (map json_string xs) @ '']''"

section \<open>String comparison: \<^verbatim>\<open>localeCompare\<close> with a sensitivity\<close>

text \<open>
  \<^verbatim>\<open>a.localeCompare(b, undefined, { sensitivity })\<close> compares with the collator of the
  host's default locale, which follows the Unicode Collation Algorithm. The collator turns
  a string into a sequence of collation elements: a code unit may give no element (the
  collator ignores it, as it does the soft hyphen), one element, or several (an expansion,
  as a letter followed by its accent), and several code units may give one element (a
  contraction). An element has three weights: the base letter, the accent (diacritic) and
  the case; the weight 0 means that the element does not count at that level. The key of a
  string at a level is the list of its weights at that level that are not 0, and two strings
  are equal at a level when their keys are.

  The sensitivity selects the levels that count: \<^verbatim>\<open>base\<close> (base letters only: a and A and
  a-acute are equal), \<^verbatim>\<open>accent\<close> (base letters and accents: a and A are equal, a and
  a-acute differ), \<^verbatim>\<open>case\<close> (base letters and case: a and a-acute are equal, a and A
  differ) and \<^verbatim>\<open>variant\<close> (all three). The collator of the host is a parameter of the
  model.
\<close>

record element =
  base :: nat
  accent :: nat
  letter_case :: nat

type_synonym collator = "string \<Rightarrow> element list"

datatype sensitivity = SBase | SAccent | SCase | SVariant

definition level_key :: "(element \<Rightarrow> nat) \<Rightarrow> element list \<Rightarrow> nat list" where
  "level_key weight elements = filter (\<lambda>n. n \<noteq> 0) (map weight elements)"

fun compare_weights :: "nat list \<Rightarrow> nat list \<Rightarrow> int" where
  "compare_weights [] [] = 0"
| "compare_weights [] (y # ys) = - 1"
| "compare_weights (x # xs) [] = 1"
| "compare_weights (x # xs) (y # ys) =
     (if x < y then - 1 else if y < x then 1 else compare_weights xs ys)"

definition localeCompare :: "collator \<Rightarrow> sensitivity \<Rightarrow> string \<Rightarrow> string \<Rightarrow> int" where
  "localeCompare col sens a b =
     (let by_base = compare_weights (level_key base (col a)) (level_key base (col b));
          by_accent = compare_weights (level_key accent (col a)) (level_key accent (col b));
          by_case = compare_weights (level_key letter_case (col a)) (level_key letter_case (col b))
      in if by_base \<noteq> 0 then by_base
         else if sens \<in> {SAccent, SVariant} \<and> by_accent \<noteq> 0 then by_accent
         else if sens \<in> {SCase, SVariant} \<and> by_case \<noteq> 0 then by_case
         else 0)"

text \<open>
  A collator for the examples, with the elements of the root collation on these code units:
  the control characters (0x00 to 0x08, 0x0E to 0x1F, 0x7F to 0x9F except 0x85) and the soft
  hyphen 0xAD give no element; a letter A to Z or a to z gives one element, with the base
  letter and the case; the letter a with a grave, acute, circumflex, tilde, diaeresis or
  ring (code units 0xC0 to 0xC5 and 0xE0 to 0xE5) gives the element of the letter followed
  by an element that has an accent weight only. Every other code unit is given one element
  with a base letter of its own, which is not the root collation on all of them; the
  examples use none of these beyond the ASCII digits and punctuation.
\<close>

definition latin_elements :: "char \<Rightarrow> element list" where
  "latin_elements c =
     (let n = (of_char c :: nat) in
      if n \<le> 8 \<or> (14 \<le> n \<and> n \<le> 31) \<or> (127 \<le> n \<and> n \<le> 159 \<and> n \<noteq> 133) \<or> n = 173 then []
      else if 65 \<le> n \<and> n \<le> 90 then [\<lparr>base = n + 32, accent = 1, letter_case = 2\<rparr>]
      else if 192 \<le> n \<and> n \<le> 197 then
        [\<lparr>base = 97, accent = 1, letter_case = 2\<rparr>, \<lparr>base = 0, accent = n - 190, letter_case = 1\<rparr>]
      else if 224 \<le> n \<and> n \<le> 229 then
        [\<lparr>base = 97, accent = 1, letter_case = 1\<rparr>, \<lparr>base = 0, accent = n - 222, letter_case = 1\<rparr>]
      else [\<lparr>base = n, accent = 1, letter_case = 1\<rparr>])"

definition latin_collator :: collator where
  "latin_collator s = concat (map latin_elements s)"

section \<open>\<^verbatim>\<open>Utils.isExactKeyMatch\<close>\<close>

definition isExactKeyMatch :: "collator \<Rightarrow> string \<Rightarrow> string option \<Rightarrow> bool" where
  "isExactKeyMatch col key cacheKey =
     (if truthy cacheKey then localeCompare col SAccent (the cacheKey) key = 0
      else False)"

text \<open>The comparison the specification describes: base letters only, on a candidate that is present.\<close>

definition spec_isExactMatch :: "collator \<Rightarrow> string \<Rightarrow> string option \<Rightarrow> bool" where
  "spec_isExactMatch col key candidateHitKey =
     (case candidateHitKey of
        None \<Rightarrow> False
      | Some c \<Rightarrow> level_key base (col c) = level_key base (col key))"

section \<open>The host: environment, file system and libraries\<close>

text \<open>
  A value caught by \<^verbatim>\<open>catch\<close>: an \<^verbatim>\<open>Error\<close> object with its name, message and
  optional stack, or any other thrown value (\<^verbatim>\<open>err instanceof Error\<close> is false).
\<close>

datatype thrown =
  ErrorObj (err_name: string) (err_message: string) (err_stack: "string option")
| NonError

text \<open>
  What a function does besides returning: the calls to the logger
  (\<^verbatim>\<open>baseLib.debug\<close>, \<^verbatim>\<open>info\<close>, \<^verbatim>\<open>warning\<close>, the operation group of
  \<^verbatim>\<open>wrapOp\<close>) and to the collaborators, in the order they happen.
\<close>

datatype event =
  Debug string
| Info string
| Warning string
| BeginOperation string
| EndOperation
| ExistsSync string
| ReadFileSync string
| GetCommitId string
| FastGlob string "string list"
| CacheSave "string list" string

type_synonym 'a outcome = "(thrown + 'a) \<times> event list"

text \<open>
  Everything the functions read from outside: \<^verbatim>\<open>process.env\<close> and
  \<^verbatim>\<open>process.platform\<close>, the default collator, Node's \<^verbatim>\<open>path\<close> and \<^verbatim>\<open>fs\<close>
  modules, and the libraries \<^verbatim>\<open>@lukka/run-vcpkg-lib\<close>, \<^verbatim>\<open>@lukka/base-util-lib\<close>,
  \<^verbatim>\<open>fast-glob\<close> and \<^verbatim>\<open>@actions/cache\<close>. A call that can throw (or a promise that can
  reject) returns \<^term>\<open>Inl\<close> of the thrown value.
\<close>

record host =
  env :: "string \<rightharpoonup> string"
  platform :: string
  collation :: collator
  path_isAbsolute :: "string \<Rightarrow> bool"
  path_normalize :: "string \<Rightarrow> string"
  path_resolve :: "string \<Rightarrow> string"
  path_join :: "string list \<Rightarrow> string"
  fs_existsSync :: "string \<Rightarrow> bool"
  fs_readFileSync :: "string \<Rightarrow> thrown + string"
  VcpkgRunner_getCommitId :: "string \<Rightarrow> thrown + string"
  VCPKG_JSON :: string
  getOrdinaryCachedPaths :: "string \<Rightarrow> string list"
  fastglob :: "string \<Rightarrow> string list \<Rightarrow> thrown + string list"
  cache_saveCache :: "string list \<Rightarrow> string \<Rightarrow> thrown + nat"
  key_separator :: string

text \<open>The names of the two error classes of \<^verbatim>\<open>@actions/cache\<close>.\<close>

definition ValidationError_name :: string where
  "ValidationError_name = ''ValidationError''"

definition ReserveCacheError_name :: string where
  "ReserveCacheError_name = ''ReserveCacheError''"

section \<open>\<^verbatim>\<open>Utils.getVcpkgCommitId\<close>\<close>

text \<open>The locals \<^verbatim>\<open>workspaceDir\<close>, \<^verbatim>\<open>fullVcpkgPath\<close>, \<^verbatim>\<open>relPath\<close> and
  \<^verbatim>\<open>submodulePath\<close> of the function.\<close>

definition workspaceDir :: "host \<Rightarrow> string" where
  "workspaceDir h = (case env h ''GITHUB_WORKSPACE'' of None \<Rightarrow> [] | Some v \<Rightarrow> v)"

definition fullVcpkgPath :: "host \<Rightarrow> string \<Rightarrow> string" where
  "fullVcpkgPath h vcpkgDirectory =
     (if path_isAbsolute h vcpkgDirectory
      then path_normalize h (path_resolve h vcpkgDirectory)
      else path_normalize h (path_resolve h (path_join h [workspaceDir h, vcpkgDirectory])))"

definition relPath :: "host \<Rightarrow> string \<Rightarrow> string" where
  "relPath h vcpkgDirectory = replace_first (workspaceDir h) [] (fullVcpkgPath h vcpkgDirectory)"

definition submodulePath :: "host \<Rightarrow> string \<Rightarrow> string" where
  "submodulePath h vcpkgDirectory =
     path_join h [workspaceDir h, ''.git/modules'', relPath h vcpkgDirectory, ''HEAD'']"

text \<open>A value inside a template literal: \<^verbatim>\<open>undefined\<close> and booleans print as words.\<close>

definition show_string :: "string option \<Rightarrow> string" where
  "show_string s = (case s of None \<Rightarrow> ''undefined'' | Some v \<Rightarrow> v)"

definition show_bool :: "bool option \<Rightarrow> string" where
  "show_bool b = (case b of None \<Rightarrow> ''undefined'' | Some True \<Rightarrow> ''true'' | Some False \<Rightarrow> ''false'')"

text \<open>The last two statements: the closing debug line and the returned pair.\<close>

definition commitId_return ::
  "string option \<Rightarrow> bool option \<Rightarrow> event list \<Rightarrow> (string option \<times> bool option) outcome" where
  \<comment> \<open>\<open>ident\<close> is the local \<^verbatim>\<open>id\<close>\<close>
  "commitId_return ident isSubmodule t =
     (Inr (ident, isSubmodule),
      t @ [Debug (''getVcpkgCommitId()>> -> [id='' @ show_string ident @ '', isSubmodule=''
                  @ show_bool isSubmodule @ '']'')])"

definition getVcpkgCommitId :: "host \<Rightarrow> string \<Rightarrow> (string option \<times> bool option) outcome" where
  "getVcpkgCommitId h vcpkgDirectory =
     (let t0 = [Debug ''getVcpkgCommitId()<<''] in
      if workspaceDir h \<noteq> [] then
        let t1 = t0 @
              [Debug (''inputVcpkgPath='' @ vcpkgDirectory),
               Debug (''fullVcpkgPath='' @ sq @ fullVcpkgPath h vcpkgDirectory @ sq),
               Debug (''relPath='' @ sq @ relPath h vcpkgDirectory @ sq),
               Debug (''submodulePath='' @ sq @ submodulePath h vcpkgDirectory @ sq),
               ExistsSync (submodulePath h vcpkgDirectory)]
        in
        if fs_existsSync h (submodulePath h vcpkgDirectory) then
          (case fs_readFileSync h (submodulePath h vcpkgDirectory) of
             Inl e \<Rightarrow> (Inl e, t1 @ [ReadFileSync (submodulePath h vcpkgDirectory)])
           | Inr ident \<Rightarrow>
               commitId_return (Some (trim ident)) (Some True)
                 (t1 @ [ReadFileSync (submodulePath h vcpkgDirectory),
                        Debug (''commitId='' @ sq @ ident @ sq)]))
        else
          let t2 = t1 @ [ExistsSync (path_join h [fullVcpkgPath h vcpkgDirectory, ''.git''])] in
          if fs_existsSync h (path_join h [fullVcpkgPath h vcpkgDirectory, ''.git'']) then
            (case VcpkgRunner_getCommitId h (fullVcpkgPath h vcpkgDirectory) of
               Inl e \<Rightarrow> (Inl e, t2 @ [GetCommitId (fullVcpkgPath h vcpkgDirectory)])
             | Inr ident \<Rightarrow>
                 commitId_return (Some (trim ident)) (Some False)
                   (t2 @ [GetCommitId (fullVcpkgPath h vcpkgDirectory)]))
          else commitId_return None None t2
      else commitId_return None None t0)"

section \<open>\<^verbatim>\<open>Utils.getVcpkgJsonPath\<close>\<close>

definition getVcpkgJsonPath :: "host \<Rightarrow> string \<Rightarrow> string list \<Rightarrow> (string option) outcome" where
  "getVcpkgJsonPath h vcpkgJsonGlob vcpkgJsonIgnores =
     (let t0 = [Debug (''getVcpkgJsonPath('' @ vcpkgJsonGlob @ '')<<''),
                FastGlob vcpkgJsonGlob vcpkgJsonIgnores];
          (ret, t1) =
            (case fastglob h vcpkgJsonGlob vcpkgJsonIgnores of
               Inr vcpkgJsonPath \<Rightarrow>
                 if length vcpkgJsonPath = 1 then
                   (Some (hd vcpkgJsonPath),
                    [Info (''Found '' @ VCPKG_JSON h @ '' at '' @ sq @ hd vcpkgJsonPath @ sq @ ''.'')])
                 else if length vcpkgJsonPath > 1 then
                   (None,
                    [Warning (''The file '' @ VCPKG_JSON h
                       @ '' was found multiple times with glob expression ''
                       @ sq @ vcpkgJsonGlob @ sq @ ''.'')])
                 else
                   (None,
                    [Warning (''The file '' @ VCPKG_JSON h
                       @ '' was not found with glob expression ''
                       @ sq @ vcpkgJsonGlob @ sq @ ''.'')])
             | Inl err \<Rightarrow>
                 (case err of
                    ErrorObj n m s \<Rightarrow> (None, [Warning m])
                  | NonError \<Rightarrow> (None, [])))
      in (Inr ret, t0 @ t1 @ [Debug ''getVcpkgJsonPath()>>'']))"

section \<open>Key sets and \<^verbatim>\<open>Utils.computeCacheKeys\<close>\<close>

record KeySet =
  primary :: string
  restore :: "string list"

text \<open>
  \<^verbatim>\<open>createKeySet\<close> of \<^verbatim>\<open>@lukka/base-util-lib\<close> is not part of the sources. It is
  modelled from the specification: the primary key is the segments joined with a separator,
  and the restore keys are the joins of the shorter and shorter prefixes of the segments, so
  that N segments give N - 1 restore keys and one segment gives none.
\<close>

definition createKeySet :: "string \<Rightarrow> string list \<Rightarrow> KeySet" where
  "createKeySet sep segments =
     \<lparr>primary = join_with sep segments,
      restore = map (\<lambda>n. join_with sep (take n segments)) (rev [1..<length segments])\<rparr>"

definition json_KeySet :: "KeySet \<Rightarrow> string" where
  "json_KeySet keys =
     ''{'' @ dq @ ''primary'' @ dq @ '':'' @ json_string (primary keys) @ '',''
       @ dq @ ''restore'' @ dq @ '':'' @ json_array (restore keys) @ ''}''"

definition computeCacheKeys :: "host \<Rightarrow> string \<Rightarrow> string option \<Rightarrow> KeySet outcome" where
  "computeCacheKeys h vcpkgDirectory userProvidedCommitId =
     (let t0 = [Debug ''computeCacheKeys()<<''];
          firstSegment0 = ''runnerOS=''
            @ (if truthy (env h ''ImageOS'') then the (env h ''ImageOS'') else platform h);
          firstSegment1 = firstSegment0
            @ (if truthy (env h ''ImageVersion'') then the (env h ''ImageVersion'') else [])
      in case getVcpkgCommitId h vcpkgDirectory of
           (Inl e, t1) \<Rightarrow> (Inl e, t0 @ t1)
         | (Inr (commitId, isSubmodule), t1) \<Rightarrow>
             let (firstSegment, t2) =
                   (if truthy commitId then
                      (firstSegment1 @ ''-vcpkgGitCommit='' @ the commitId,
                       if isSubmodule = Some True then
                         [Info (''Adding vcpkg submodule Git commit id '' @ sq @ the commitId @ sq
                                @ '' to cache key'')]
                         @ (if truthy userProvidedCommitId then
                              [Warning (''The provided Git commit id is disregarded: '' @ sq
                                 @ the userProvidedCommitId @ sq
                                 @ ''. Please remove it from the inputs.'')]
                            else [])
                       else
                         [Info (''vcpkg identified at Git commit id '' @ sq @ the commitId @ sq
                                @ '', adding it to the cache's key.'')])
                    else if truthy userProvidedCommitId then
                      (firstSegment1 @ ''-vcpkgGitCommit='' @ the userProvidedCommitId,
                       [Info (''Adding user provided vcpkg's Git commit id '' @ sq
                              @ the userProvidedCommitId @ sq @ '' to cache key.'')])
                    else
                      (firstSegment1,
                       [Info ''No vcpkg's commit id was provided, does not contribute to the cache's key.'']));
                 cacheKeySegments = [firstSegment];
                 keyset = createKeySet (key_separator h) cacheKeySegments
             in (Inr keyset, t0 @ t1 @ t2 @ [Debug ''computeCacheKeys()>>'']))"

section \<open>\<^verbatim>\<open>Utils.saveCache\<close>\<close>

text \<open>
  \<^verbatim>\<open>wrapOp\<close> of \<^verbatim>\<open>@lukka/base-util-lib\<close> opens a named operation in the log, runs the
  function it is given once, closes the operation and passes on what the function returned
  or threw. The elapsed time it prints is not modelled.
\<close>

definition wrapOp :: "string \<Rightarrow> 'a outcome \<Rightarrow> 'a outcome" where
  "wrapOp name fn = (fst fn, [BeginOperation name] @ snd fn @ [EndOperation])"

text \<open>The function passed to \<^verbatim>\<open>wrapOp\<close>: the save decision and the save attempt with its
  \<^verbatim>\<open>catch\<close>.\<close>

definition saveCache_op :: "host \<Rightarrow> KeySet \<Rightarrow> string option \<Rightarrow> string list \<Rightarrow> unit outcome" where
  "saveCache_op h keys hitCacheKey cachedPaths =
     (if truthy hitCacheKey \<and> isExactKeyMatch (collation h) (primary keys) hitCacheKey then
        (Inr (),
         [Info (''Saving cache is skipped, because cache hit occurred on the cache key '' @ sq
                @ primary keys @ sq @ ''.'')])
      else
        let pathsToCache = cachedPaths;
            t = [Info ''Saving a new cache entry, because primary key was missed or a fallback restore key was hit.'',
                 Info (''Caching paths: '' @ sq @ join_with '','' pathsToCache @ sq),
                 Info (''Saving cache with primary key '' @ sq @ primary keys @ sq @ '' ...''),
                 CacheSave pathsToCache (primary keys)]
        in case cache_saveCache h pathsToCache (primary keys) of
             Inr cacheId \<Rightarrow> (Inr (), t)
           | Inl error \<Rightarrow>
               (case error of
                  ErrorObj n m s \<Rightarrow>
                    if n = ValidationError_name then (Inl error, t)
                    else if n = ReserveCacheError_name then (Inr (), t @ [Info m])
                    else (Inr (), t @ [Warning m])
                | NonError \<Rightarrow> (Inr (), t)))"

definition saveCache :: "host \<Rightarrow> KeySet \<Rightarrow> string option \<Rightarrow> string list \<Rightarrow> unit outcome" where
  "saveCache h keys hitCacheKey cachedPaths =
     (let t0 = [Debug (''saveCache(keys:'' @ json_KeySet keys @ '',hitCacheKey:''
                       @ (case hitCacheKey of None \<Rightarrow> ''null'' | Some k \<Rightarrow> k)
                       @ '',cachedPaths:'' @ join_with '','' cachedPaths @ '')<<'')];
          (r, t1) = wrapOp ''Save vcpkg into the GitHub Action cache (only the tool, not the built packages which are saved by vcpkg`s Binary Caching on GitHub Action`s cache).''
                      (saveCache_op h keys hitCacheKey cachedPaths);
          t2 = (case r of
                  Inr u \<Rightarrow> []
                | Inl err \<Rightarrow>
                    [Warning ''vcpkg-utils.saveCache() failed!'']
                    @ (case err of
                         ErrorObj n m s \<Rightarrow>
                           [Warning n, Warning m] @ (if truthy s then [Warning (the s)] else [])
                       | NonError \<Rightarrow> []))
      in (Inr (), t0 @ t1 @ t2 @ [Debug ''saveCache()>>'']))"

section \<open>\<^verbatim>\<open>Utils.getAllCachedPaths\<close>\<close>

text \<open>A JavaScript \<^verbatim>\<open>Set\<close> keeps its members in the order they were first added;
  \<^verbatim>\<open>[...new Set(xs)]\<close> lists them in that order.\<close>

definition Set_add :: "string list \<Rightarrow> string \<Rightarrow> string list" where
  "Set_add members x = (if x \<in> set members then members else members @ [x])"

definition new_Set :: "string list \<Rightarrow> string list" where
  "new_Set xs = foldl Set_add [] xs"

definition getAllCachedPaths :: "host \<Rightarrow> string \<Rightarrow> string list \<times> event list" where
  "getAllCachedPaths h vcpkgRootDir =
     (let pathsToCache = getOrdinaryCachedPaths h vcpkgRootDir;
          pathsToCache = filter (\<lambda>s. s \<noteq> []) (map trim pathsToCache);
          ps = new_Set pathsToCache
      in (ps,
          [Debug (''getAllCachedPaths('' @ vcpkgRootDir @ '')<<''),
           Debug (''getAllCachedPaths('' @ vcpkgRootDir @ '')<< -> '' @ sq @ json_array ps @ sq)]))"

section \<open>Reading a trace\<close>

fun warnings :: "event list \<Rightarrow> string list" where
  "warnings [] = []"
| "warnings (Warning m # t) = m # warnings t"
| "warnings (e # t) = warnings t"

fun infos :: "event list \<Rightarrow> string list" where
  "infos [] = []"
| "infos (Info m # t) = m # infos t"
| "infos (e # t) = infos t"

fun saves :: "event list \<Rightarrow> (string list \<times> string) list" where
  "saves [] = []"
| "saves (CacheSave ps k # t) = (ps, k) # saves t"
| "saves (e # t) = saves t"

text \<open>The calls to the file system and to git.\<close>

fun probes :: "event list \<Rightarrow> event list" where
  "probes [] = []"
| "probes (ExistsSync p # t) = ExistsSync p # probes t"
| "probes (ReadFileSync p # t) = ReadFileSync p # probes t"
| "probes (GetCommitId p # t) = GetCommitId p # probes t"
| "probes (e # t) = probes t"

section \<open>A host for the examples\<close>

text \<open>Node's \<^verbatim>\<open>path.posix\<close>, with the working directory as a parameter of \<^verbatim>\<open>resolve\<close>.\<close>

fun split_slash :: "string \<Rightarrow> string list" where
  "split_slash [] = [[]]"
| "split_slash (c # cs) =
     (if c = CHR ''/'' then [] # split_slash cs
      else (case split_slash cs of [] \<Rightarrow> [[c]] | s # ss \<Rightarrow> (c # s) # ss))"

fun normalize_segments :: "bool \<Rightarrow> string list \<Rightarrow> string list \<Rightarrow> string list" where
  "normalize_segments allowAboveRoot acc [] = rev acc"
| "normalize_segments allowAboveRoot acc (s # ss) =
     (if s = [] \<or> s = ''.'' then normalize_segments allowAboveRoot acc ss
      else if s = ''..'' then
        (if acc \<noteq> [] \<and> hd acc \<noteq> ''..'' then normalize_segments allowAboveRoot (tl acc) ss
         else if allowAboveRoot then normalize_segments allowAboveRoot (s # acc) ss
         else normalize_segments allowAboveRoot acc ss)
      else normalize_segments allowAboveRoot (s # acc) ss)"

definition posix_isAbsolute :: "string \<Rightarrow> bool" where
  "posix_isAbsolute p = (p \<noteq> [] \<and> hd p = CHR ''/'')"

definition posix_normalize :: "string \<Rightarrow> string" where
  "posix_normalize p =
     (if p = [] then ''.''
      else
        let isAbsolute = posix_isAbsolute p;
            trailingSeparator = (last p = CHR ''/'');
            n = join_with ''/'' (normalize_segments (\<not> isAbsolute) [] (split_slash p))
        in if n = [] then (if isAbsolute then ''/'' else if trailingSeparator then ''./'' else ''.'')
           else (if isAbsolute then ''/'' else []) @ n @ (if trailingSeparator then ''/'' else []))"

definition posix_join :: "string list \<Rightarrow> string" where
  "posix_join args =
     (let parts = filter (\<lambda>a. a \<noteq> []) args
      in if parts = [] then ''.'' else posix_normalize (join_with ''/'' parts))"

definition posix_resolve :: "string \<Rightarrow> string \<Rightarrow> string" where
  "posix_resolve cwd p =
     (let full = (if posix_isAbsolute p then p else if p = [] then cwd else cwd @ ''/'' @ p)
      in ''/'' @ join_with ''/'' (normalize_segments False [] (split_slash full)))"

text \<open>
  A runner with the workspace \<^verbatim>\<open>/w\<close>, in which \<^verbatim>\<open>/w/vcpkg\<close> is both a submodule of the
  workspace (its \<^verbatim>\<open>HEAD\<close> file holds \<^verbatim>\<open>abc123\<close> and a newline) and has a \<^verbatim>\<open>.git\<close>
  entry of its own, and \<^verbatim>\<open>/w/clone\<close> is an ordinary checkout.
\<close>

definition example_exists :: "string \<Rightarrow> bool" where
  "example_exists p = (p \<in> set [''/w/.git/modules/vcpkg/HEAD'', ''/w/vcpkg/.git'', ''/w/clone/.git''])"

definition example_read :: "string \<Rightarrow> thrown + string" where
  "example_read p =
     (if p = ''/w/.git/modules/vcpkg/HEAD'' then Inr (''abc123'' @ [CHR 0x0A])
      else Inl (ErrorObj ''Error'' ''ENOENT: no such file or directory'' None))"

definition example_git :: "string \<Rightarrow> thrown + string" where
  "example_git p =
     (if p = ''/w/clone'' \<or> p = ''/w/vcpkg'' then Inr (''def456'' @ [CHR 0x0A])
      else Inl (ErrorObj ''Error'' ''not a git repository'' None))"

definition example_glob :: "string \<Rightarrow> string list \<Rightarrow> thrown + string list" where
  "example_glob pat ignores =
     (if pat = ''**/vcpkg.json'' then Inr [''/w/vcpkg.json'']
      else if pat = ''**/*.json'' then Inr [''/w/vcpkg.json'', ''/w/package.json'']
      else if pat = [] then
        Inl (ErrorObj ''TypeError'' ''Patterns must be a string (non empty) or an array of strings'' None)
      else Inr [])"

definition example_paths :: "string \<Rightarrow> string list" where
  "example_paths root =
     (if root = ''/w/vcpkg'' then [''a'', '' '', ''b'', ''a'', []]
      else if root = ''/w/clone'' then ['' a'']
      else [root])"

definition example_save :: "string list \<Rightarrow> string \<Rightarrow> thrown + nat" where
  "example_save paths key =
     (if paths = [] \<or> CHR '','' \<in> set key then
        Inl (ErrorObj ValidationError_name ''Validation Error'' (Some ''at checkKey''))
      else if key = ''taken'' then
        Inl (ErrorObj ReserveCacheError_name ''Unable to reserve cache'' None)
      else if key = ''down'' then Inl (ErrorObj ''HttpClientError'' ''Service unavailable'' None)
      else Inr 7)"

definition example_host :: host where
  "example_host =
     \<lparr>env = [''GITHUB_WORKSPACE'' \<mapsto> ''/w'', ''ImageOS'' \<mapsto> ''ubuntu22''],
      platform = ''linux'',
      collation = latin_collator,
      path_isAbsolute = posix_isAbsolute,
      path_normalize = posix_normalize,
      path_resolve = posix_resolve ''/w'',
      path_join = posix_join,
      fs_existsSync = example_exists,
      fs_readFileSync = example_read,
      VcpkgRunner_getCommitId = example_git,
      VCPKG_JSON = ''vcpkg.json'',
      getOrdinaryCachedPaths = example_paths,
      fastglob = example_glob,
      cache_saveCache = example_save,
      key_separator = ''_''\<rparr>"

text \<open>The same runner without a workspace.\<close>

definition bare_host :: host where
  "bare_host = example_host\<lparr>env := Map.empty\<rparr>"

text \<open>The same runner with an empty workspace variable.\<close>

definition empty_workspace_host :: host where
  "empty_workspace_host = example_host\<lparr>env := [''GITHUB_WORKSPACE'' \<mapsto> []]\<rparr>"

section \<open>The specification's vocabulary\<close>

text \<open>The part of the first key segment that comes before the commit id: the image OS, or
  the platform name, followed by the image version when there is one.\<close>

definition runnerOS_prefix :: "host \<Rightarrow> string" where
  "runnerOS_prefix h =
     ''runnerOS='' @ (if truthy (env h ''ImageOS'') then the (env h ''ImageOS'') else platform h)
       @ (if truthy (env h ''ImageVersion'') then the (env h ''ImageVersion'') else [])"

text \<open>A list without its repetitions, every member at the place of its first occurrence.\<close>

fun first_occurrences :: "string list \<Rightarrow> string list" where
  "first_occurrences [] = []"
| "first_occurrences (x # xs) = x # first_occurrences (filter (\<lambda>y. y \<noteq> x) xs)"

text \<open>A blank entry: empty, or white space only.\<close>

definition is_blank :: "string \<Rightarrow> bool" where
  "is_blank s = list_all is_js_space s"

text \<open>The path normalizer as the specification words it: blank entries removed, duplicates
  removed, order of first occurrence kept.\<close>

definition spec_normalizePaths :: "string list \<Rightarrow> string list" where
  "spec_normalizePaths rawPaths = first_occurrences (filter (\<lambda>s. \<not> is_blank s) rawPaths)"

section \<open>The exact-match predicate\<close>

lemma compare_weights_zero: "compare_weights xs ys = 0 \<longleftrightarrow> xs = ys"
  by (induction xs ys rule: compare_weights.induct) auto

lemma localeCompare_accent_zero:
  "localeCompare col SAccent a b = 0 \<longleftrightarrow>
     level_key base (col a) = level_key base (col b)
     \<and> level_key accent (col a) = level_key accent (col b)"
  by (auto simp: localeCompare_def Let_def compare_weights_zero)

text \<open>
  Claim C1, as the specification states it, says that \<^verbatim>\<open>isExactKeyMatch\<close> ignores accents
  as well as case. The code asks for the sensitivity \<^verbatim>\<open>accent\<close>, under which accents count:
  the keys \<^verbatim>\<open>a\<close> and a-acute have the same base letter and do not match. An empty candidate
  is present and equal to the empty key, and does not match either.
\<close>

theorem isExactKeyMatch_spec_counterexample:
  "spec_isExactMatch latin_collator ''a'' (Some [CHR 0xE1])
   \<and> \<not> isExactKeyMatch latin_collator ''a'' (Some [CHR 0xE1])
   \<and> spec_isExactMatch latin_collator [] (Some [])
   \<and> \<not> isExactKeyMatch latin_collator [] (Some [])"
  by code_simp

text \<open>
  Claim C1, amended: for every collator, key and candidate, \<^verbatim>\<open>isExactKeyMatch\<close> returns true
  exactly when the candidate is present, is not the empty string, and is equal to the key at
  the sensitivity \<^verbatim>\<open>accent\<close> of the host's collator: the two strings have the same base
  letters and the same accents, whatever their case and whatever code units the collator
  ignores. So keys that differ only by case match, and keys that differ in an accent or in a
  base letter, or an absent or empty candidate, do not.
\<close>

theorem isExactKeyMatch_accent_sensitive:
  "isExactKeyMatch col key cacheKey =
     (case cacheKey of
        None \<Rightarrow> False
      | Some c \<Rightarrow> c \<noteq> [] \<and> level_key base (col c) = level_key base (col key)
                  \<and> level_key accent (col c) = level_key accent (col key))"
  by (simp add: isExactKeyMatch_def truthy_def localeCompare_accent_zero split: option.split)

theorem isExactKeyMatch_accent_sensitive_witness:
  "isExactKeyMatch latin_collator ''Key-1'' (Some ''kEY-1'')
   \<and> isExactKeyMatch latin_collator ''ab'' (Some [CHR ''a'', CHR 0xAD, CHR ''b''])
   \<and> \<not> isExactKeyMatch latin_collator ''key-1'' (Some ''kex-1'')
   \<and> \<not> isExactKeyMatch latin_collator ''a'' (Some [CHR 0xE1])
   \<and> \<not> isExactKeyMatch latin_collator [CHR 0xE1] (Some [CHR 0xE0])
   \<and> \<not> isExactKeyMatch latin_collator ''a'' (Some [])
   \<and> \<not> isExactKeyMatch latin_collator ''a'' None"
  by (simp add: isExactKeyMatch_accent_sensitive latin_collator_def latin_elements_def
      level_key_def)

text \<open>
  Claim C10: an empty candidate hit key is treated as an absent one. For every key,
  \<^verbatim>\<open>isExactKeyMatch(key, "")\<close> is false, also for the empty key, so the predicate is not
  reflexive on the empty string.
\<close>

theorem isExactKeyMatch_empty_candidate:
  "isExactKeyMatch col key (Some []) = False
   \<and> isExactKeyMatch col [] (Some []) = False
   \<and> isExactKeyMatch col key (Some []) = isExactKeyMatch col key None"
  by (simp add: isExactKeyMatch_def truthy_def)

section \<open>Detecting the commit id\<close>

text \<open>
  Claim C9: when \<^verbatim>\<open>GITHUB_WORKSPACE\<close> is unset or empty, \<^verbatim>\<open>getVcpkgCommitId\<close> returns
  \<^verbatim>\<open>[undefined, undefined]\<close> for every directory. Its whole trace is the two debug lines:
  the file system and git are not consulted.
\<close>

theorem getVcpkgCommitId_no_workspace:
  assumes "env h ''GITHUB_WORKSPACE'' = None \<or> env h ''GITHUB_WORKSPACE'' = Some []"
  shows "getVcpkgCommitId h vcpkgDirectory =
           (Inr (None, None),
            [Debug ''getVcpkgCommitId()<<'',
             Debug ''getVcpkgCommitId()>> -> [id=undefined, isSubmodule=undefined]''])"
proof -
  from assms have "workspaceDir h = []"
    by (auto simp: workspaceDir_def)
  then show ?thesis
    by (simp add: getVcpkgCommitId_def commitId_return_def show_string_def show_bool_def)
qed

theorem getVcpkgCommitId_no_workspace_witness:
  "env bare_host ''GITHUB_WORKSPACE'' = None
   \<and> fs_existsSync bare_host ''/w/.git/modules/vcpkg/HEAD''
   \<and> fst (getVcpkgCommitId bare_host ''vcpkg'') = Inr (None, None)
   \<and> probes (snd (getVcpkgCommitId bare_host ''vcpkg'')) = []
   \<and> env empty_workspace_host ''GITHUB_WORKSPACE'' = Some []
   \<and> fst (getVcpkgCommitId empty_workspace_host ''/w/vcpkg'') = Inr (None, None)
   \<and> probes (snd (getVcpkgCommitId empty_workspace_host ''/w/vcpkg'')) = []"
proof -
  have e: "env bare_host ''GITHUB_WORKSPACE'' = None"
    by (simp add: bare_host_def example_host_def)
  have x: "fs_existsSync bare_host ''/w/.git/modules/vcpkg/HEAD''"
    by (simp add: bare_host_def example_host_def example_exists_def)
  have e': "env empty_workspace_host ''GITHUB_WORKSPACE'' = Some []"
    by (simp add: empty_workspace_host_def)
  from e x e' getVcpkgCommitId_no_workspace [of bare_host "''vcpkg''"]
    getVcpkgCommitId_no_workspace [of empty_workspace_host "''/w/vcpkg''"]
  show ?thesis
    by simp
qed

lemma probes_append: "probes (a @ b) = probes a @ probes b"
  by (induction a rule: probes.induct) auto

lemma warnings_append: "warnings (a @ b) = warnings a @ warnings b"
  by (induction a rule: warnings.induct) auto

lemma infos_append: "infos (a @ b) = infos a @ infos b"
  by (induction a rule: infos.induct) auto

lemma saves_append: "saves (a @ b) = saves a @ saves b"
  by (induction a rule: saves.induct) auto

text \<open>The paths of the example runner.\<close>

lemma example_workspaceDir: "workspaceDir example_host = ''/w''"
  by code_simp

lemma example_fullVcpkgPath: "fullVcpkgPath example_host ''vcpkg'' = ''/w/vcpkg''"
  by code_simp

lemma example_submodulePath:
  "submodulePath example_host ''vcpkg'' = ''/w/.git/modules/vcpkg/HEAD''"
  by code_simp

lemma example_dot_git: "path_join example_host [''/w/vcpkg'', ''.git''] = ''/w/vcpkg/.git''"
  by code_simp

lemma getVcpkgCommitId_submodule:
  assumes "workspaceDir h \<noteq> []"
    and "fs_existsSync h (submodulePath h d)"
    and "fs_readFileSync h (submodulePath h d) = Inr contents"
  shows "getVcpkgCommitId h d =
           commitId_return (Some (trim contents)) (Some True)
             ([Debug ''getVcpkgCommitId()<<'',
               Debug (''inputVcpkgPath='' @ d),
               Debug (''fullVcpkgPath='' @ sq @ fullVcpkgPath h d @ sq),
               Debug (''relPath='' @ sq @ relPath h d @ sq),
               Debug (''submodulePath='' @ sq @ submodulePath h d @ sq),
               ExistsSync (submodulePath h d),
               ReadFileSync (submodulePath h d),
               Debug (''commitId='' @ sq @ contents @ sq)])"
  using assms by (simp add: getVcpkgCommitId_def)

lemma getVcpkgCommitId_git_query:
  assumes "GetCommitId p \<in> set (snd (getVcpkgCommitId h d))"
  shows "\<not> fs_existsSync h (submodulePath h d)"
  using assms
  by (auto simp: getVcpkgCommitId_def commitId_return_def Let_def split: if_splits sum.splits)

lemma getVcpkgCommitId_not_submodule:
  assumes "fst (getVcpkgCommitId h d) = Inr (c, Some False)"
  shows "\<not> fs_existsSync h (submodulePath h d)"
  using assms
  by (auto simp: getVcpkgCommitId_def commitId_return_def Let_def split: if_splits sum.splits)

text \<open>
  Claim C5: with a workspace, if the file \<^verbatim>\<open><workspaceRoot>/.git/modules/<relativePath>/HEAD\<close>
  exists, the result is the trimmed contents of that file with \<^verbatim>\<open>isSubmodule\<close> true,
  whatever else exists: after that file the function reads nothing, so a \<^verbatim>\<open>.git\<close> entry in
  the directory is not even looked for. The git query, and a result with \<^verbatim>\<open>isSubmodule\<close>
  false, happen only when the submodule file does not exist.
\<close>

theorem getVcpkgCommitId_submodule_first:
  assumes "workspaceDir h \<noteq> []"
  shows "(fs_existsSync h (submodulePath h d)
            \<and> fs_readFileSync h (submodulePath h d) = Inr contents
          \<longrightarrow> fst (getVcpkgCommitId h d) = Inr (Some (trim contents), Some True)
              \<and> probes (snd (getVcpkgCommitId h d)) =
                  [ExistsSync (submodulePath h d), ReadFileSync (submodulePath h d)])
         \<and> (GetCommitId p \<in> set (snd (getVcpkgCommitId h d))
              \<or> fst (getVcpkgCommitId h d) = Inr (c, Some False)
            \<longrightarrow> \<not> fs_existsSync h (submodulePath h d))"
proof (intro conjI impI)
  assume sub: "fs_existsSync h (submodulePath h d)
                 \<and> fs_readFileSync h (submodulePath h d) = Inr contents"
  with assms getVcpkgCommitId_submodule [of h d contents]
  show "fst (getVcpkgCommitId h d) = Inr (Some (trim contents), Some True)"
    by (simp add: commitId_return_def)
  from sub assms getVcpkgCommitId_submodule [of h d contents]
  show "probes (snd (getVcpkgCommitId h d)) =
          [ExistsSync (submodulePath h d), ReadFileSync (submodulePath h d)]"
    by (simp add: commitId_return_def probes_append)
next
  assume "GetCommitId p \<in> set (snd (getVcpkgCommitId h d))
            \<or> fst (getVcpkgCommitId h d) = Inr (c, Some False)"
  then show "\<not> fs_existsSync h (submodulePath h d)"
    using getVcpkgCommitId_git_query getVcpkgCommitId_not_submodule by blast
qed

theorem getVcpkgCommitId_submodule_first_witness:
  "workspaceDir example_host \<noteq> []
   \<and> fs_existsSync example_host (submodulePath example_host ''vcpkg'')
   \<and> fs_existsSync example_host (path_join example_host [fullVcpkgPath example_host ''vcpkg'', ''.git''])
   \<and> fst (getVcpkgCommitId example_host ''vcpkg'') = Inr (Some ''abc123'', Some True)
   \<and> probes (snd (getVcpkgCommitId example_host ''vcpkg'')) =
       [ExistsSync ''/w/.git/modules/vcpkg/HEAD'', ReadFileSync ''/w/.git/modules/vcpkg/HEAD'']"
proof -
  have w: "workspaceDir example_host \<noteq> []"
    by (simp add: example_workspaceDir)
  have x: "fs_existsSync example_host ''/w/.git/modules/vcpkg/HEAD''"
    by (simp add: example_host_def example_exists_def)
  have g: "fs_existsSync example_host ''/w/vcpkg/.git''"
    by (simp add: example_host_def example_exists_def)
  have r: "fs_readFileSync example_host ''/w/.git/modules/vcpkg/HEAD'' = Inr (''abc123'' @ [CHR 0x0A])"
    by (simp add: example_host_def example_read_def)
  have t: "trim (''abc123'' @ [CHR 0x0A]) = ''abc123''"
    by (simp add: trim_def is_js_space_def)
  from getVcpkgCommitId_submodule_first [OF w, of "''vcpkg''" "''abc123'' @ [CHR 0x0A]"] x g r t
  show ?thesis
    by (simp add: example_submodulePath example_fullVcpkgPath example_dot_git example_workspaceDir)
qed

section \<open>The commit id in the cache key\<close>

lemma warnings_getVcpkgCommitId: "warnings (snd (getVcpkgCommitId h d)) = []"
  by (simp add: getVcpkgCommitId_def commitId_return_def Let_def warnings_append
      split: sum.split)

lemma computeCacheKeys_Inr:
  assumes "getVcpkgCommitId h d = (Inr (commitId, isSubmodule), t1)"
  shows "fst (computeCacheKeys h d override) =
           Inr \<lparr>primary = runnerOS_prefix h
                   @ (if truthy commitId then ''-vcpkgGitCommit='' @ the commitId
                      else if truthy override then ''-vcpkgGitCommit='' @ the override
                      else []),
                restore = []\<rparr>"
  using assms
  by (simp add: computeCacheKeys_def runnerOS_prefix_def createKeySet_def Let_def)

lemma computeCacheKeys_warnings:
  assumes "getVcpkgCommitId h d = (Inr (commitId, isSubmodule), t1)"
  shows "warnings (snd (computeCacheKeys h d override)) =
           (if truthy commitId \<and> isSubmodule = Some True \<and> truthy override
            then [''The provided Git commit id is disregarded: '' @ sq @ the override @ sq
                  @ ''. Please remove it from the inputs.'']
            else [])"
proof -
  have "warnings t1 = []"
    using warnings_getVcpkgCommitId [of h d] assms by simp
  with assms show ?thesis
    by (simp add: computeCacheKeys_def Let_def warnings_append)
qed

text \<open>
  Claim C3: the commit id in the first (and only) key segment follows a strict precedence.
  When \<^verbatim>\<open>getVcpkgCommitId\<close> detected a commit id, the key is the OS/image prefix followed by
  \<^verbatim>\<open>-vcpkgGitCommit=<id>\<close>, whatever the user's override is; otherwise, when the user
  supplied an override, it is the prefix followed by \<^verbatim>\<open>-vcpkgGitCommit=<override>\<close>;
  otherwise it is the prefix alone. A warning is logged exactly when a commit id was
  detected in a submodule and an override was supplied as well. As everywhere in the code,
  a detected or supplied id is one that is defined and not empty.
\<close>

theorem computeCacheKeys_commit_precedence:
  assumes "fst (getVcpkgCommitId h d) = Inr (commitId, isSubmodule)"
  shows "fst (computeCacheKeys h d override) =
           Inr \<lparr>primary = runnerOS_prefix h
                   @ (if truthy commitId then ''-vcpkgGitCommit='' @ the commitId
                      else if truthy override then ''-vcpkgGitCommit='' @ the override
                      else []),
                restore = []\<rparr>
         \<and> warnings (snd (computeCacheKeys h d override)) =
             (if truthy commitId \<and> isSubmodule = Some True \<and> truthy override
              then [''The provided Git commit id is disregarded: '' @ sq @ the override @ sq
                    @ ''. Please remove it from the inputs.'']
              else [])"
proof -
  obtain t1 where "getVcpkgCommitId h d = (Inr (commitId, isSubmodule), t1)"
    using assms by (cases "getVcpkgCommitId h d") simp
  then show ?thesis
    using computeCacheKeys_Inr computeCacheKeys_warnings by blast
qed

theorem computeCacheKeys_commit_precedence_witness:
  "fst (getVcpkgCommitId example_host ''vcpkg'') = Inr (Some ''abc123'', Some True)
   \<and> fst (computeCacheKeys example_host ''vcpkg'' (Some ''zzz'')) =
       Inr \<lparr>primary = ''runnerOS=ubuntu22-vcpkgGitCommit=abc123'', restore = []\<rparr>
   \<and> warnings (snd (computeCacheKeys example_host ''vcpkg'' (Some ''zzz''))) =
       [''The provided Git commit id is disregarded: '' @ sq @ ''zzz'' @ sq
        @ ''. Please remove it from the inputs.'']"
proof -
  have d: "fst (getVcpkgCommitId example_host ''vcpkg'') = Inr (Some ''abc123'', Some True)"
    by code_simp
  have p: "runnerOS_prefix example_host = ''runnerOS=ubuntu22''"
    by code_simp
  from computeCacheKeys_commit_precedence [OF d, of "Some ''zzz''"] d p show ?thesis
    by (simp add: truthy_def)
qed

section \<open>Saving the cache\<close>

lemma saveCache_trace:
  "snd (saveCache h keys hit paths) =
     [Debug (''saveCache(keys:'' @ json_KeySet keys @ '',hitCacheKey:''
             @ (case hit of None \<Rightarrow> ''null'' | Some k \<Rightarrow> k)
             @ '',cachedPaths:'' @ join_with '','' paths @ '')<<''),
      BeginOperation ''Save vcpkg into the GitHub Action cache (only the tool, not the built packages which are saved by vcpkg`s Binary Caching on GitHub Action`s cache).'']
     @ snd (saveCache_op h keys hit paths)
     @ [EndOperation]
     @ (case fst (saveCache_op h keys hit paths) of
          Inr u \<Rightarrow> []
        | Inl err \<Rightarrow>
            [Warning ''vcpkg-utils.saveCache() failed!'']
            @ (case err of
                 ErrorObj n m s \<Rightarrow>
                   [Warning n, Warning m] @ (if truthy s then [Warning (the s)] else [])
               | NonError \<Rightarrow> []))
     @ [Debug ''saveCache()>>'']"
  by (simp add: saveCache_def wrapOp_def Let_def split: prod.split)

lemma saveCache_returns: "fst (saveCache h keys hit paths) = Inr ()"
  by (simp add: saveCache_def Let_def split: prod.split)

lemma exact_match_truthy: "isExactKeyMatch col key hit \<Longrightarrow> truthy hit"
  by (simp add: isExactKeyMatch_def split: if_splits)

lemma saveCache_op_skip:
  assumes "isExactKeyMatch (collation h) (primary keys) hit"
  shows "saveCache_op h keys hit paths =
           (Inr (),
            [Info (''Saving cache is skipped, because cache hit occurred on the cache key '' @ sq
                   @ primary keys @ sq @ ''.'')])"
  using assms exact_match_truthy [OF assms] by (simp add: saveCache_op_def)

lemma saveCache_op_attempt:
  assumes "\<not> isExactKeyMatch (collation h) (primary keys) hit"
  shows "saveCache_op h keys hit paths =
           (let t = [Info ''Saving a new cache entry, because primary key was missed or a fallback restore key was hit.'',
                     Info (''Caching paths: '' @ sq @ join_with '','' paths @ sq),
                     Info (''Saving cache with primary key '' @ sq @ primary keys @ sq @ '' ...''),
                     CacheSave paths (primary keys)]
            in case cache_saveCache h paths (primary keys) of
                 Inr cacheId \<Rightarrow> (Inr (), t)
               | Inl error \<Rightarrow>
                   (case error of
                      ErrorObj n m s \<Rightarrow>
                        if n = ValidationError_name then (Inl error, t)
                        else if n = ReserveCacheError_name then (Inr (), t @ [Info m])
                        else (Inr (), t @ [Warning m])
                    | NonError \<Rightarrow> (Inr (), t)))"
  using assms by (simp add: saveCache_op_def Let_def)

lemma saves_saveCache_op:
  "saves (snd (saveCache_op h keys hit paths)) =
     (if isExactKeyMatch (collation h) (primary keys) hit then [] else [(paths, primary keys)])"
proof (cases "isExactKeyMatch (collation h) (primary keys) hit")
  case True
  then show ?thesis by (simp add: saveCache_op_skip)
next
  case False
  then show ?thesis
    by (simp add: saveCache_op_attempt Let_def saves_append split: sum.split thrown.split)
qed

text \<open>
  Claim C4: when the hit key is an exact match of the primary key (so it is present),
  \<^verbatim>\<open>saveCache\<close> makes no call to the store's save; in every other case, a hit key that is
  absent or that matches only a restore key, it makes exactly one call, with the given
  paths and the primary key.
\<close>

theorem saveCache_save_decision:
  "saves (snd (saveCache h keys hitCacheKey cachedPaths)) =
     (if isExactKeyMatch (collation h) (primary keys) hitCacheKey then []
      else [(cachedPaths, primary keys)])"
proof -
  have "saves (snd (saveCache h keys hitCacheKey cachedPaths)) =
          saves (snd (saveCache_op h keys hitCacheKey cachedPaths))"
    by (simp add: saveCache_trace saves_append split: sum.split thrown.split)
  then show ?thesis
    by (simp add: saves_saveCache_op)
qed

theorem saveCache_save_decision_witness:
  "saves (snd (saveCache example_host \<lparr>primary = ''a_b'', restore = [''a'']\<rparr> (Some ''A_B'') [''p'', ''q''])) = []
   \<and> saves (snd (saveCache example_host \<lparr>primary = ''a_b'', restore = [''a'']\<rparr> (Some ''a'') [''p'', ''q''])) =
       [([''p'', ''q''], ''a_b'')]
   \<and> saves (snd (saveCache example_host \<lparr>primary = ''a_b'', restore = [''a'']\<rparr> None [''p'', ''q''])) =
       [([''p'', ''q''], ''a_b'')]"
proof -
  have c: "collation example_host = latin_collator"
    by (simp add: example_host_def)
  have "isExactKeyMatch latin_collator ''a_b'' (Some ''A_B'')"
    and "\<not> isExactKeyMatch latin_collator ''a_b'' (Some ''a'')"
    and "\<not> isExactKeyMatch latin_collator ''a_b'' None"
    by code_simp+
  then show ?thesis
    by (simp add: saveCache_save_decision c)
qed

lemma names_differ: "ReserveCacheError_name \<noteq> ValidationError_name"
  by (simp add: ReserveCacheError_name_def ValidationError_name_def)

text \<open>
  Claim C6: when the save is attempted and the store's save fails with an error named
  \<^verbatim>\<open>ReserveCacheError\<close>, \<^verbatim>\<open>saveCache\<close> logs the error's message at the informational level
  and logs no warning; when it fails with an error of any other name except
  \<^verbatim>\<open>ValidationError\<close>, the message is logged as a warning. In both cases \<^verbatim>\<open>saveCache\<close>
  returns normally.
\<close>

theorem saveCache_swallows_store_errors:
  assumes "\<not> isExactKeyMatch (collation h) (primary keys) hit"
    and "cache_saveCache h paths (primary keys) = Inl (ErrorObj n m s)"
    and "n \<noteq> ValidationError_name"
  shows "fst (saveCache h keys hit paths) = Inr ()
         \<and> fst (saveCache_op h keys hit paths) = Inr ()
         \<and> warnings (snd (saveCache h keys hit paths)) =
             (if n = ReserveCacheError_name then [] else [m])
         \<and> infos (snd (saveCache h keys hit paths)) =
             [''Saving a new cache entry, because primary key was missed or a fallback restore key was hit.'',
              ''Caching paths: '' @ sq @ join_with '','' paths @ sq,
              ''Saving cache with primary key '' @ sq @ primary keys @ sq @ '' ...'']
             @ (if n = ReserveCacheError_name then [m] else [])"
proof -
  have op: "saveCache_op h keys hit paths =
      (Inr (),
       [Info ''Saving a new cache entry, because primary key was missed or a fallback restore key was hit.'',
        Info (''Caching paths: '' @ sq @ join_with '','' paths @ sq),
        Info (''Saving cache with primary key '' @ sq @ primary keys @ sq @ '' ...''),
        CacheSave paths (primary keys)]
       @ [if n = ReserveCacheError_name then Info m else Warning m])"
    using assms by (simp add: saveCache_op_attempt)
  show ?thesis
    by (simp add: saveCache_returns saveCache_trace op warnings_append infos_append)
qed

theorem saveCache_swallows_store_errors_witness:
  "fst (saveCache example_host \<lparr>primary = ''taken'', restore = []\<rparr> None [''p'']) = Inr ()
   \<and> warnings (snd (saveCache example_host \<lparr>primary = ''taken'', restore = []\<rparr> None [''p''])) = []
   \<and> last (infos (snd (saveCache example_host \<lparr>primary = ''taken'', restore = []\<rparr> None [''p'']))) =
       ''Unable to reserve cache''
   \<and> fst (saveCache example_host \<lparr>primary = ''down'', restore = []\<rparr> (Some ''up'') [''p'']) = Inr ()
   \<and> warnings (snd (saveCache example_host \<lparr>primary = ''down'', restore = []\<rparr> (Some ''up'') [''p''])) =
       [''Service unavailable'']"
proof -
  have m1: "\<not> isExactKeyMatch (collation example_host) (primary \<lparr>primary = ''taken'', restore = []\<rparr>) None"
    by (simp add: isExactKeyMatch_def truthy_def)
  have s1: "cache_saveCache example_host [''p''] (primary \<lparr>primary = ''taken'', restore = []\<rparr>) =
              Inl (ErrorObj ReserveCacheError_name ''Unable to reserve cache'' None)"
    by (simp add: example_host_def example_save_def)
  have m2: "\<not> isExactKeyMatch (collation example_host) (primary \<lparr>primary = ''down'', restore = []\<rparr>) (Some ''up'')"
    by code_simp
  have s2: "cache_saveCache example_host [''p''] (primary \<lparr>primary = ''down'', restore = []\<rparr>) =
              Inl (ErrorObj ''HttpClientError'' ''Service unavailable'' None)"
    by (simp add: example_host_def example_save_def)
  have n2: "''HttpClientError'' \<noteq> ValidationError_name" "''HttpClientError'' \<noteq> ReserveCacheError_name"
    by (simp_all add: ValidationError_name_def ReserveCacheError_name_def)
  from saveCache_swallows_store_errors [OF m1 s1 names_differ]
    saveCache_swallows_store_errors [OF m2 s2 n2(1)] n2(2)
  show ?thesis
    by simp
qed

text \<open>
  Claim C2, as the specification states it, says that a \<^verbatim>\<open>ValidationError\<close> of the store's
  save leaves \<^verbatim>\<open>saveCache\<close>. On the example runner the store rejects a key with a comma;
  the save is attempted, and \<^verbatim>\<open>saveCache\<close> returns normally.
\<close>

theorem saveCache_validation_counterexample:
  "cache_saveCache example_host [''p''] ''a,b'' =
     Inl (ErrorObj ValidationError_name ''Validation Error'' (Some ''at checkKey''))
   \<and> saves (snd (saveCache example_host \<lparr>primary = ''a,b'', restore = []\<rparr> None [''p''])) =
       [([''p''], ''a,b'')]
   \<and> fst (saveCache example_host \<lparr>primary = ''a,b'', restore = []\<rparr> None [''p'']) = Inr ()"
proof -
  have "\<not> isExactKeyMatch (collation example_host) (primary \<lparr>primary = ''a,b'', restore = []\<rparr>) None"
    by (simp add: isExactKeyMatch_def truthy_def)
  then have "saves (snd (saveCache_op example_host \<lparr>primary = ''a,b'', restore = []\<rparr> None [''p''])) =
      [([''p''], ''a,b'')]"
    by (simp add: saves_saveCache_op)
  then show ?thesis
    by (simp add: saveCache_returns saveCache_trace saves_append example_host_def example_save_def
        split: sum.split thrown.split)
qed

text \<open>
  Claim C2, amended: when the save is attempted and the store's save fails with an error
  named \<^verbatim>\<open>ValidationError\<close>, the error is thrown again by the handler of the save attempt
  and leaves the operation wrapped by \<^verbatim>\<open>wrapOp\<close>, but the outer handler of \<^verbatim>\<open>saveCache\<close>
  catches it: \<^verbatim>\<open>saveCache\<close> returns normally, after logging as warnings the line
  \<^verbatim>\<open>vcpkg-utils.saveCache() failed!\<close>, the error's name, its message and, if it has one, its
  stack.
\<close>

theorem saveCache_validation_error_caught:
  assumes "\<not> isExactKeyMatch (collation h) (primary keys) hit"
    and "cache_saveCache h paths (primary keys) = Inl (ErrorObj ValidationError_name m s)"
  shows "fst (saveCache_op h keys hit paths) = Inl (ErrorObj ValidationError_name m s)
         \<and> fst (wrapOp name (saveCache_op h keys hit paths)) = Inl (ErrorObj ValidationError_name m s)
         \<and> fst (saveCache h keys hit paths) = Inr ()
         \<and> warnings (snd (saveCache h keys hit paths)) =
             [''vcpkg-utils.saveCache() failed!'', ValidationError_name, m]
             @ (if truthy s then [the s] else [])"
proof -
  have op: "saveCache_op h keys hit paths =
      (Inl (ErrorObj ValidationError_name m s),
       [Info ''Saving a new cache entry, because primary key was missed or a fallback restore key was hit.'',
        Info (''Caching paths: '' @ sq @ join_with '','' paths @ sq),
        Info (''Saving cache with primary key '' @ sq @ primary keys @ sq @ '' ...''),
        CacheSave paths (primary keys)])"
    using assms by (simp add: saveCache_op_attempt)
  show ?thesis
    by (simp add: saveCache_returns saveCache_trace op wrapOp_def warnings_append)
qed

theorem saveCache_validation_error_caught_witness:
  "fst (saveCache_op example_host \<lparr>primary = ''a,b'', restore = []\<rparr> None [''p'']) =
     Inl (ErrorObj ValidationError_name ''Validation Error'' (Some ''at checkKey''))
   \<and> fst (saveCache example_host \<lparr>primary = ''a,b'', restore = []\<rparr> None [''p'']) = Inr ()
   \<and> warnings (snd (saveCache example_host \<lparr>primary = ''a,b'', restore = []\<rparr> None [''p''])) =
       [''vcpkg-utils.saveCache() failed!'', ''ValidationError'', ''Validation Error'', ''at checkKey'']"
proof -
  have m: "\<not> isExactKeyMatch (collation example_host) (primary \<lparr>primary = ''a,b'', restore = []\<rparr>) None"
    by (simp add: isExactKeyMatch_def truthy_def)
  have s: "cache_saveCache example_host [''p''] (primary \<lparr>primary = ''a,b'', restore = []\<rparr>) =
             Inl (ErrorObj ValidationError_name ''Validation Error'' (Some ''at checkKey''))"
    by (simp add: example_host_def example_save_def)
  from saveCache_validation_error_caught [OF m s] show ?thesis
    by (simp add: truthy_def ValidationError_name_def)
qed

section \<open>Finding the manifest\<close>

text \<open>
  Claim C8: \<^verbatim>\<open>getVcpkgJsonPath\<close> never raises, for every glob pattern and ignore list. It
  returns the matched path when the glob finder yields exactly one match, and \<^verbatim>\<open>null\<close> in
  every other case. When the finder yields no match or more than one, and when the glob call
  throws an error, it logs one warning (for a thrown error, the error's message); with
  exactly one match it logs none. What the glob call throws is an \<^verbatim>\<open>Error\<close> object, as
  it is for \<^verbatim>\<open>fast-glob\<close>.
\<close>

theorem getVcpkgJsonPath_result:
  "fst (getVcpkgJsonPath h vcpkgJsonGlob ignores) =
     Inr (case fastglob h vcpkgJsonGlob ignores of Inr [p] \<Rightarrow> Some p | _ \<Rightarrow> None)
   \<and> (fastglob h vcpkgJsonGlob ignores \<noteq> Inl NonError \<longrightarrow>
        warnings (snd (getVcpkgJsonPath h vcpkgJsonGlob ignores)) =
          (case fastglob h vcpkgJsonGlob ignores of
             Inr [] \<Rightarrow>
               [''The file '' @ VCPKG_JSON h @ '' was not found with glob expression ''
                @ sq @ vcpkgJsonGlob @ sq @ ''.'']
           | Inr [p] \<Rightarrow> []
           | Inr (p # q # ps) \<Rightarrow>
               [''The file '' @ VCPKG_JSON h @ '' was found multiple times with glob expression ''
                @ sq @ vcpkgJsonGlob @ sq @ ''.'']
           | Inl err \<Rightarrow> [err_message err]))"
  by (simp add: getVcpkgJsonPath_def warnings_append split: sum.split thrown.split list.split)

theorem getVcpkgJsonPath_result_witness:
  "fastglob example_host ''**/vcpkg.json'' [] \<noteq> Inl NonError
   \<and> fst (getVcpkgJsonPath example_host ''**/vcpkg.json'' []) = Inr (Some ''/w/vcpkg.json'')
   \<and> warnings (snd (getVcpkgJsonPath example_host ''**/vcpkg.json'' [])) = []
   \<and> fastglob example_host ''**/*.json'' [] \<noteq> Inl NonError
   \<and> fst (getVcpkgJsonPath example_host ''**/*.json'' []) = Inr None
   \<and> length (warnings (snd (getVcpkgJsonPath example_host ''**/*.json'' []))) = 1
   \<and> fastglob example_host ''*.txt'' [] \<noteq> Inl NonError
   \<and> fst (getVcpkgJsonPath example_host ''*.txt'' []) = Inr None
   \<and> length (warnings (snd (getVcpkgJsonPath example_host ''*.txt'' []))) = 1
   \<and> fastglob example_host [] [] \<noteq> Inl NonError
   \<and> fst (getVcpkgJsonPath example_host [] []) = Inr None
   \<and> warnings (snd (getVcpkgJsonPath example_host [] [])) =
       [''Patterns must be a string (non empty) or an array of strings'']"
proof -
  have g: "fastglob example_host ''**/vcpkg.json'' [] = Inr [''/w/vcpkg.json'']"
    "fastglob example_host ''**/*.json'' [] = Inr [''/w/vcpkg.json'', ''/w/package.json'']"
    "fastglob example_host ''*.txt'' [] = Inr []"
    "fastglob example_host [] [] =
       Inl (ErrorObj ''TypeError'' ''Patterns must be a string (non empty) or an array of strings'' None)"
    by (simp_all add: example_host_def example_glob_def)
  from getVcpkgJsonPath_result [of example_host "''**/vcpkg.json''" "[]"]
    getVcpkgJsonPath_result [of example_host "''**/*.json''" "[]"]
    getVcpkgJsonPath_result [of example_host "''*.txt''" "[]"]
    getVcpkgJsonPath_result [of example_host "[]" "[]"]
  show ?thesis
    by (simp add: g)
qed

section \<open>The paths to cache\<close>

lemma trim_empty_iff: "trim s = [] \<longleftrightarrow> is_blank s"
proof
  assume "trim s = []"
  then have "dropWhile is_js_space (rev (dropWhile is_js_space s)) = []"
    by (simp add: trim_def)
  then have all: "\<forall>c \<in> set (dropWhile is_js_space s). is_js_space c"
    by (auto simp: dropWhile_eq_Nil_conv)
  have "dropWhile is_js_space s = []"
  proof (rule ccontr)
    assume ne: "dropWhile is_js_space s \<noteq> []"
    then have "\<not> is_js_space (hd (dropWhile is_js_space s))"
      by (rule hd_dropWhile)
    moreover from ne have "hd (dropWhile is_js_space s) \<in> set (dropWhile is_js_space s)"
      by simp
    ultimately show False
      using all by blast
  qed
  then show "is_blank s"
    by (simp add: is_blank_def dropWhile_eq_Nil_conv list_all_iff)
next
  assume "is_blank s"
  then have "dropWhile is_js_space s = []"
    by (simp add: is_blank_def dropWhile_eq_Nil_conv list_all_iff)
  then show "trim s = []"
    by (simp add: trim_def del: dropWhile_eq_Nil_conv)
qed

lemma filter_trim: "filter (\<lambda>s. s \<noteq> []) (map trim xs) = map trim (filter (\<lambda>s. \<not> is_blank s) xs)"
  by (induction xs) (simp_all add: trim_empty_iff)

lemma foldl_Set_add:
  "foldl Set_add acc xs = acc @ first_occurrences (filter (\<lambda>x. x \<notin> set acc) xs)"
proof (induction xs arbitrary: acc)
  case Nil
  then show ?case by simp
next
  case (Cons x xs)
  show ?case
  proof (cases "x \<in> set acc")
    case True
    then have "Set_add acc x = acc"
      by (simp add: Set_add_def)
    with True Cons.IH [of acc] show ?thesis
      by simp
  next
    case False
    then have add: "Set_add acc x = acc @ [x]"
      by (simp add: Set_add_def)
    have "filter (\<lambda>y. y \<notin> set (acc @ [x])) xs =
        filter (\<lambda>y. y \<noteq> x) (filter (\<lambda>y. y \<notin> set acc) xs)"
      by (induction xs) auto
    with False add Cons.IH [of "acc @ [x]"] show ?thesis
      by simp
  qed
qed

lemma new_Set_first_occurrences: "new_Set xs = first_occurrences xs"
  by (simp add: new_Set_def foldl_Set_add)

lemma set_first_occurrences: "set (first_occurrences xs) = set xs"
  by (induction xs rule: first_occurrences.induct) auto

lemma distinct_first_occurrences: "distinct (first_occurrences xs)"
  by (induction xs rule: first_occurrences.induct) (auto simp: set_first_occurrences)

text \<open>
  Claim C7, as the specification states it, says that the result is the raw list without its
  blank entries and its duplicates. The code also trims every entry: the one-entry list
  with \<^verbatim>\<open>a\<close> after a space gives \<^verbatim>\<open>a\<close> without the space.
\<close>

theorem getAllCachedPaths_trim_counterexample:
  "getOrdinaryCachedPaths example_host ''/w/clone'' = ['' a'']
   \<and> spec_normalizePaths ['' a''] = ['' a'']
   \<and> fst (getAllCachedPaths example_host ''/w/clone'') = [''a'']"
  by code_simp

text \<open>
  Claim C7, amended: for every list of raw paths, \<^verbatim>\<open>getAllCachedPaths\<close> returns the list
  with the blank entries removed, every other entry trimmed of the white space around it,
  and the duplicates among the trimmed entries removed, each entry staying at the place of
  its first occurrence. The result has no repetition and no empty entry. The raw list
  \<^verbatim>\<open>["a", " ", "b", "a", ""]\<close> gives \<^verbatim>\<open>["a", "b"]\<close>.
\<close>

theorem getAllCachedPaths_normalized:
  "fst (getAllCachedPaths h vcpkgRootDir) =
     first_occurrences (map trim (filter (\<lambda>s. \<not> is_blank s) (getOrdinaryCachedPaths h vcpkgRootDir)))
   \<and> distinct (fst (getAllCachedPaths h vcpkgRootDir))
   \<and> set (fst (getAllCachedPaths h vcpkgRootDir)) =
       trim ` set (getOrdinaryCachedPaths h vcpkgRootDir) - {[]}"
proof -
  have r: "fst (getAllCachedPaths h vcpkgRootDir) =
      first_occurrences (map trim (filter (\<lambda>s. \<not> is_blank s) (getOrdinaryCachedPaths h vcpkgRootDir)))"
    by (simp add: getAllCachedPaths_def Let_def new_Set_first_occurrences filter_trim)
  have "set (map trim (filter (\<lambda>s. \<not> is_blank s) (getOrdinaryCachedPaths h vcpkgRootDir))) =
      trim ` set (getOrdinaryCachedPaths h vcpkgRootDir) - {[]}"
    by (auto simp: trim_empty_iff)
  with r show ?thesis
    by (simp add: distinct_first_occurrences set_first_occurrences)
qed

theorem getAllCachedPaths_normalized_witness:
  "getOrdinaryCachedPaths example_host ''/w/vcpkg'' = [''a'', '' '', ''b'', ''a'', []]
   \<and> fst (getAllCachedPaths example_host ''/w/vcpkg'') = [''a'', ''b'']"
proof -
  have raw: "getOrdinaryCachedPaths example_host ''/w/vcpkg'' = [''a'', '' '', ''b'', ''a'', []]"
    by (simp add: example_host_def example_paths_def)
  have "first_occurrences (map trim (filter (\<lambda>s. \<not> is_blank s) [''a'', '' '', ''b'', ''a'', []])) =
      [''a'', ''b'']"
    by (simp add: is_blank_def is_js_space_def trim_def)
  with raw getAllCachedPaths_normalized [of example_host "''/w/vcpkg''"] show ?thesis
    by simp
qed

end
